theory Spec2Isabelle
  imports Complex_Main
begin

section \<open>Photon HBT pairing task (PWGEM/PhotonMeson/Tasks/PhotonHBT.cxx)\<close>

text \<open>
  A shallow embedding of the analysis task \<^verbatim>\<open>struct PhotonHBT\<close>. The task loops over
  collisions, pairs photon candidates of the same collision and of different collisions
  of one mixing bin, and fills histograms. Histogram filling is the only effect of the
  task: it is modelled as the list of the fills, in the order the code makes them.
  Numbers that the code holds in \<^verbatim>\<open>float\<close> or \<^verbatim>\<open>double\<close> are exact reals here; rounding is
  not modelled.
\<close>

subsection \<open>Data model\<close>

datatype PairType = kPCMPCM | kPHOSPHOS | kEMCEMC | kPCMPHOS | kPCMEMC | kPHOSEMC

text \<open>\<^verbatim>\<open>pairnames[6]\<close>, indexed by the pair type.\<close>

fun pairnames :: "PairType \<Rightarrow> string" where
  "pairnames kPCMPCM = ''PCMPCM''"
| "pairnames kPHOSPHOS = ''PHOSPHOS''"
| "pairnames kEMCEMC = ''EMCEMC''"
| "pairnames kPCMPHOS = ''PCMPHOS''"
| "pairnames kPCMEMC = ''PCMEMC''"
| "pairnames kPHOSEMC = ''PHOSEMC''"

text \<open>
  A row of \<^verbatim>\<open>aod::EMReducedEvents\<close>, with the columns the task reads. \<^verbatim>\<open>numContrib\<close> is
  an unsigned 16-bit column; \<open>multNTracksPV\<close> is read by the mixing bins only.
\<close>

record collision =
  collisionId :: int
  posZ :: real
  numContrib :: nat
  sel8 :: bool
  isPHOSCPVreadout :: bool
  ngpcm :: int
  ngphos :: int
  ngemc :: int
  multNTracksPV :: int

text \<open>
  A row of a photon table (\<^verbatim>\<open>MyV0Photons\<close> or \<^verbatim>\<open>aod::PHOSClusters\<close>), with the columns
  the task reads. The index of a row (\<^verbatim>\<open>g.index()\<close>) is its position in the table.
\<close>

record photon =
  g_collisionId :: int
  pt :: real
  eta :: real
  phi :: real

text \<open>
  A photon cut (\<^verbatim>\<open>V0PhotonCut\<close>, \<^verbatim>\<open>PHOSPhotonCut\<close>): its name and its selection
  predicate. The predicates live in the cut classes, outside this task: they are
  parameters of the model.
\<close>

record cut =
  GetName :: string
  IsSelected :: "photon \<Rightarrow> bool"

subsection \<open>Histogram classes created at start-up\<close>

text \<open>
  \<^verbatim>\<open>init\<close> collects the names of the enabled pair types, in this order.
\<close>

definition init_fPairNames :: "bool \<Rightarrow> bool \<Rightarrow> bool \<Rightarrow> string list" where
  "init_fPairNames processPCMPCM processPHOSPHOS processPCMPHOS =
     (if processPCMPCM then [''PCMPCM''] else []) @
     (if processPHOSPHOS then [''PHOSPHOS''] else []) @
     (if processPCMPHOS then [''PCMPHOS''] else [])"

text \<open>
  \<^verbatim>\<open>add_pair_histograms\<close>: the names of the histogram classes added below the list of
  \<open>pairname\<close>, one per call of \<^verbatim>\<open>AddHistClass\<close>, in the order of the two loops.
\<close>

definition add_pair_histograms :: "string \<Rightarrow> cut list \<Rightarrow> cut list \<Rightarrow> string list" where
  "add_pair_histograms pairname cuts1 cuts2 =
     concat (map (\<lambda>cut1. concat (map (\<lambda>cut2.
       (let cutname1 = GetName cut1; cutname2 = GetName cut2 in
        if (pairname = ''PCMPCM'' \<or> pairname = ''PHOSPHOS'' \<or> pairname = ''EMCEMC'')
            \<and> cutname1 \<noteq> cutname2
        then []
        else [cutname1 @ ''_'' @ cutname2])) cuts2)) cuts1)"

text \<open>
  \<^verbatim>\<open>addhistograms\<close>: for every enabled pair name, the pair list of that name and the
  classes added below it.
\<close>

definition addhistograms :: "string list \<Rightarrow> cut list \<Rightarrow> cut list \<Rightarrow> (string \<times> string list) list" where
  "addhistograms fPairNames fPCMCuts fPHOSCuts =
     map (\<lambda>pairname. (pairname,
       (if pairname = ''PCMPCM'' then add_pair_histograms pairname fPCMCuts fPCMCuts else []) @
       (if pairname = ''PHOSPHOS'' then add_pair_histograms pairname fPHOSCuts fPHOSCuts else []) @
       (if pairname = ''PCMPHOS'' then add_pair_histograms pairname fPCMCuts fPHOSCuts else [])))
     fPairNames"

subsection \<open>Pair selection\<close>

text \<open>
  \<^verbatim>\<open>IsSelectedPair<pairtype>\<close>. The branches on the pair type are \<^verbatim>\<open>if constexpr\<close>; the
  last one returns \<^verbatim>\<open>true\<close> without looking at the cuts.
\<close>

definition IsSelectedPair :: "PairType \<Rightarrow> photon \<Rightarrow> photon \<Rightarrow> cut \<Rightarrow> cut \<Rightarrow> bool" where
  "IsSelectedPair pairtype g1 g2 cut1 cut2 =
     (if pairtype = kPCMPCM then
        (let is_g1_passed = IsSelected cut1 g1; is_g2_passed = IsSelected cut2 g2
         in is_g1_passed \<and> is_g2_passed)
      else if pairtype = kPHOSPHOS then
        (let is_g1_passed = IsSelected cut1 g1; is_g2_passed = IsSelected cut2 g2
         in is_g1_passed \<and> is_g2_passed)
      else if pairtype = kPCMPHOS then
        (let is_g1_passed = IsSelected cut1 g1; is_g2_passed = IsSelected cut2 g2
         in is_g1_passed \<and> is_g2_passed)
      else True)"

subsection \<open>Four-vectors and the kinematic transform\<close>

text \<open>
  Modelled from the spec: \<^verbatim>\<open>ROOT::Math::PtEtaPhiMVector\<close> and \<^verbatim>\<open>ROOT::Math::XYZVector\<close>
  are types of the ROOT library, which is not part of the sources. The spec takes them as
  massless four-vectors with difference, half-sum, invariant mass, transverse momentum
  and spatial part. A four-vector is held here by its Cartesian components, in exact
  arithmetic; the operations below are the library's, read as what they compute.
\<close>

record LorentzVector =
  Px :: real
  Py :: real
  Pz :: real
  E :: real

record XYZVector =
  X :: real
  Y :: real
  Z :: real

text \<open>
  Modelled from the spec: the constructor from (pt, eta, phi, m), with
  \<open>px = pt cos phi\<close>, \<open>py = pt sin phi\<close>, \<open>pz = pt sinh eta\<close> and
  \<open>E\<^sup>2 = |p|\<^sup>2 + m\<^sup>2\<close> (the square of a negative mass counts negative, and a
  negative sum counts as zero). These are the components of a candidate of pt > 0, and
  of one with pt = 0 and eta = 0; the library's encoding of vectors along the beam axis
  in eta is not modelled.
\<close>

definition PtEtaPhiMVector :: "real \<Rightarrow> real \<Rightarrow> real \<Rightarrow> real \<Rightarrow> LorentzVector" where
  "PtEtaPhiMVector pt0 eta0 phi0 m =
     (let e2 = (pt0 * cosh eta0)\<^sup>2 + (if m \<ge> 0 then m\<^sup>2 else - (m\<^sup>2))
      in \<lparr>Px = pt0 * cos phi0, Py = pt0 * sin phi0, Pz = pt0 * sinh eta0,
          E = sqrt (if e2 > 0 then e2 else 0)\<rparr>)"

text \<open>
  Modelled from the spec: \<^verbatim>\<open>v1 - v2\<close>, \<^verbatim>\<open>v1 + v2\<close> and \<^verbatim>\<open>a * v\<close> on four-vectors, by components.
\<close>

definition lv_minus :: "LorentzVector \<Rightarrow> LorentzVector \<Rightarrow> LorentzVector" where
  "lv_minus v w = \<lparr>Px = Px v - Px w, Py = Py v - Py w, Pz = Pz v - Pz w, E = E v - E w\<rparr>"

definition lv_plus :: "LorentzVector \<Rightarrow> LorentzVector \<Rightarrow> LorentzVector" where
  "lv_plus v w = \<lparr>Px = Px v + Px w, Py = Py v + Py w, Pz = Pz v + Pz w, E = E v + E w\<rparr>"

definition lv_scale :: "real \<Rightarrow> LorentzVector \<Rightarrow> LorentzVector" where
  "lv_scale a v = \<lparr>Px = a * Px v, Py = a * Py v, Pz = a * Pz v, E = a * E v\<rparr>"

text \<open>
  Modelled from the spec: \<^verbatim>\<open>M()\<close>, the signed invariant mass (the negated root of \<open>-M2\<close>
  for a space-like vector), \<^verbatim>\<open>Pt()\<close>, \<^verbatim>\<open>P()\<close> and \<^verbatim>\<open>Vect()\<close>.
\<close>

definition M2 :: "LorentzVector \<Rightarrow> real" where
  "M2 v = (E v)\<^sup>2 - ((Px v)\<^sup>2 + (Py v)\<^sup>2 + (Pz v)\<^sup>2)"

definition M :: "LorentzVector \<Rightarrow> real" where
  "M v = (let mm = M2 v in if mm \<ge> 0 then sqrt mm else - sqrt (- mm))"

definition Pt :: "LorentzVector \<Rightarrow> real" where
  "Pt v = sqrt ((Px v)\<^sup>2 + (Py v)\<^sup>2)"

definition P :: "LorentzVector \<Rightarrow> real" where
  "P v = sqrt ((Px v)\<^sup>2 + (Py v)\<^sup>2 + (Pz v)\<^sup>2)"

definition Vect :: "LorentzVector \<Rightarrow> XYZVector" where
  "Vect v = \<lparr>X = Px v, Y = Py v, Z = Pz v\<rparr>"

text \<open>Modelled from the spec: \<^verbatim>\<open>Dot\<close> and \<^verbatim>\<open>Cross\<close> of three-vectors.\<close>

definition Dot :: "XYZVector \<Rightarrow> XYZVector \<Rightarrow> real" where
  "Dot a b = X a * X b + Y a * Y b + Z a * Z b"

definition Cross :: "XYZVector \<Rightarrow> XYZVector \<Rightarrow> XYZVector" where
  "Cross a b = \<lparr>X = Y a * Z b - Z a * Y b, Y = Z a * X b - X a * Z b,
                Z = X a * Y b - Y a * X b\<rparr>"

text \<open>
  Modelled from the spec: the division of a three-vector by a scalar. The code divides
  by \<^verbatim>\<open>k12.P()\<close> with no check; a zero divisor gives no number, which is \<open>None\<close> here.
\<close>

definition xyz_div :: "XYZVector \<Rightarrow> real \<Rightarrow> XYZVector option" where
  "xyz_div a d = (if d = 0 then None else Some \<lparr>X = X a / d, Y = Y a / d, Z = Z a / d\<rparr>)"

text \<open>The array \<^verbatim>\<open>values[5] = {qinv, qlong, qout, qside, kt}\<close>.\<close>

record observables =
  qinv :: real
  qlong :: real
  qout :: real
  qside :: real
  kt :: real

text \<open>The half-sum \<^verbatim>\<open>k12 = 0.5 * (v1 + v2)\<close> of the two massless four-vectors.\<close>

definition k12_of :: "photon \<Rightarrow> photon \<Rightarrow> LorentzVector" where
  "k12_of g1 g2 =
     (let v1 = PtEtaPhiMVector (pt g1) (eta g1) (phi g1) 0;
          v2 = PtEtaPhiMVector (pt g2) (eta g2) (phi g2) 0
      in lv_scale 0.5 (lv_plus v1 v2))"

text \<open>
  The block that computes \<^verbatim>\<open>values\<close> from \<open>g1\<close> and \<open>g2\<close>. The code has it three times,
  word for word: in the two branches of \<^verbatim>\<open>SameEventPairing\<close> and in
  \<^verbatim>\<open>MixedEventPairing\<close>. The result is \<open>None\<close> when the division for \<open>uv_out\<close> has a
  zero divisor.
\<close>

definition KinematicTransform :: "photon \<Rightarrow> photon \<Rightarrow> observables option" where
  "KinematicTransform g1 g2 =
     (let v1 = PtEtaPhiMVector (pt g1) (eta g1) (phi g1) 0;
          v2 = PtEtaPhiMVector (pt g2) (eta g2) (phi g2) 0;
          q12 = lv_minus v1 v2;
          k12 = lv_scale 0.5 (lv_plus v1 v2);
          qinv0 = - M q12;
          kt0 = Pt k12;
          q_3d = Vect q12
      in case xyz_div (Vect k12) (P k12) of
           None \<Rightarrow> None
         | Some uv_out \<Rightarrow>
             (let uv_long = \<lparr>X = 0, Y = 0, Z = 1\<rparr>;
                  uv_side = Cross uv_out uv_long;
                  qout0 = Dot q_3d uv_out;
                  qlong0 = Dot q_3d uv_long;
                  qside0 = Dot q_3d uv_side
              in Some \<lparr>qinv = qinv0, qlong = qlong0, qout = qout0, qside = qside0, kt = kt0\<rparr>))"

subsection \<open>The kinematic transform with checked arithmetic\<close>









subsection \<open>Histogram fills\<close>

text \<open>
  One call of \<^verbatim>\<open>Fill\<close>. For the event histograms the argument is the filled value. For
  the pair histograms \<^verbatim>\<open>hs_q_same\<close> and \<^verbatim>\<open>hs_q_mix\<close> it is the name of the cut class
  (\<^verbatim>\<open>Form("%s_%s", ...)\<close>) and the array \<^verbatim>\<open>values\<close>; the indices of the two candidates in
  their tables are kept beside them, to tell which pair made the fill.
\<close>

datatype hfill =
    hZvtx_before real
  | hCollisionCounter real
  | hZvtx_after real
  | hs_q_same string nat nat "observables option"
  | hs_q_mix string nat nat "observables option"

subsection \<open>Tables, slices and combinations\<close>

text \<open>
  \<^verbatim>\<open>photons.sliceBy(perCollision, id)\<close>: the rows of the table whose collision index is
  \<open>id\<close>, each with its index in the table, in table order.
\<close>

definition sliceBy :: "photon list \<Rightarrow> int \<Rightarrow> (nat \<times> photon) list" where
  "sliceBy photons cid = filter (\<lambda>(i, g). g_collisionId g = cid) (enumerate 0 photons)"

text \<open>
  Modelled from the spec: \<^verbatim>\<open>CombinationsStrictlyUpperIndexPolicy\<close> of the framework
  (\<^verbatim>\<open>Framework/ASoAHelpers.h\<close>), which is not part of the sources. It gives the pairs of
  the row at position \<open>i\<close> of the first table with the row at position \<open>j\<close> of the
  second, for \<open>i < j\<close>, the first position in the outer loop.
\<close>

fun CombinationsStrictlyUpperIndexPolicy :: "'a list \<Rightarrow> 'b list \<Rightarrow> ('a \<times> 'b) list" where
  "CombinationsStrictlyUpperIndexPolicy (x # xs) (y # ys) =
     map (Pair x) ys @ CombinationsStrictlyUpperIndexPolicy xs ys"
| "CombinationsStrictlyUpperIndexPolicy _ _ = []"

text \<open>
  Modelled from the spec: \<^verbatim>\<open>CombinationsFullIndexPolicy\<close> of the framework, which is not
  part of the sources. It gives every pair of a row of the first table with a row of the
  second, the first position in the outer loop.
\<close>

definition CombinationsFullIndexPolicy :: "'a list \<Rightarrow> 'b list \<Rightarrow> ('a \<times> 'b) list" where
  "CombinationsFullIndexPolicy xs ys = concat (map (\<lambda>x. map (Pair x) ys) xs)"

text \<open>
  Modelled from the spec: the strictly upper pairs of one mixing bin. Every row is paired
  with the rows after it, at most \<open>w\<close> of them, the first row of the pair in the outer
  loop.
\<close>

fun block_upper :: "nat \<Rightarrow> 'a list \<Rightarrow> ('a \<times> 'a) list" where
  "block_upper w [] = []"
| "block_upper w (x # xs) = map (Pair x) (take w xs) @ block_upper w xs"

text \<open>
  Modelled from the spec: \<^verbatim>\<open>soa::selfCombinations(binning, categoryNeighbours, outsider,
  table, table)\<close> of the framework, which is not part of the sources. The rows are
  grouped by their bin, the bins in increasing order and without the bin \<open>outsider\<close>, and
  paired within each bin. The binning policy (\<^verbatim>\<open>colBinning\<close>, over \<^verbatim>\<open>posZ\<close> and
  \<^verbatim>\<open>multNTracksPV\<close>) is a parameter.
\<close>

definition selfCombinations ::
  "(collision \<Rightarrow> int) \<Rightarrow> nat \<Rightarrow> int \<Rightarrow> collision list \<Rightarrow> (collision \<times> collision) list" where
  "selfCombinations binning categoryNeighbours outsider collisions =
     concat (map (\<lambda>b. block_upper categoryNeighbours (filter (\<lambda>c. binning c = b) collisions))
       (sort (remdups (filter (\<lambda>b. b \<noteq> outsider) (map binning collisions)))))"

subsection \<open>Same-event pairing\<close>

text \<open>
  The fill of one candidate pair: the selection, the kinematic transform and the fill of
  the pair histogram. \<open>mk\<close> is \<open>hs_q_same\<close> or \<open>hs_q_mix\<close>. There is no check between the
  transform and the fill.
\<close>

definition fill_pair ::
  "(string \<Rightarrow> nat \<Rightarrow> nat \<Rightarrow> observables option \<Rightarrow> hfill) \<Rightarrow> PairType \<Rightarrow> cut \<Rightarrow> cut \<Rightarrow>
   (nat \<times> photon) \<times> (nat \<times> photon) \<Rightarrow> hfill list" where
  "fill_pair mk pairtype cut1 cut2 = (\<lambda>(g1, g2).
     if \<not> IsSelectedPair pairtype (snd g1) (snd g2) cut1 cut2 then []
     else [mk (GetName cut1 @ ''_'' @ GetName cut2) (fst g1) (fst g2)
             (KinematicTransform (snd g1) (snd g2))])"

text \<open>
  The body of the loop over the collisions in \<^verbatim>\<open>SameEventPairing\<close>: the readout gate of
  the PHOS pair types, the event histograms and the three event gates, then the pairs of
  the two slices. \<^verbatim>\<open>abs\<close> is the absolute value of the vertex position; \<^verbatim>\<open>numContrib\<close> is
  compared with 0.5 as a number.
\<close>

definition SameEventPairing_collision ::
  "PairType \<Rightarrow> photon list \<Rightarrow> photon list \<Rightarrow> cut list \<Rightarrow> cut list \<Rightarrow> collision \<Rightarrow> hfill list" where
  "SameEventPairing_collision pairtype photons1 photons2 cuts1 cuts2 collision =
     (if (pairtype = kPHOSPHOS \<or> pairtype = kPCMPHOS) \<and> \<not> isPHOSCPVreadout collision then []
      else [hZvtx_before (posZ collision), hCollisionCounter 1] @
       (if \<not> sel8 collision then []
        else [hCollisionCounter 2] @
         (if real (numContrib collision) < 0.5 then []
          else [hCollisionCounter 3] @
           (if \<bar>posZ collision\<bar> > 10 then []
            else [hZvtx_after (posZ collision), hCollisionCounter 4] @
             (let photons1_coll = sliceBy photons1 (collisionId collision);
                  photons2_coll = sliceBy photons2 (collisionId collision)
              in if pairtype = kPCMPCM \<or> pairtype = kPHOSPHOS \<or> pairtype = kEMCEMC then
                   concat (map (\<lambda>cut.
                     concat (map (fill_pair hs_q_same pairtype cut cut)
                       (CombinationsStrictlyUpperIndexPolicy photons1_coll photons2_coll)))
                     cuts1)
                 else
                   concat (map (\<lambda>cut1. concat (map (\<lambda>cut2.
                     concat (map (fill_pair hs_q_same pairtype cut1 cut2)
                       (CombinationsFullIndexPolicy photons1_coll photons2_coll)))
                     cuts2)) cuts1))))))"

definition SameEventPairing ::
  "PairType \<Rightarrow> collision list \<Rightarrow> photon list \<Rightarrow> photon list \<Rightarrow> cut list \<Rightarrow> cut list \<Rightarrow> hfill list" where
  "SameEventPairing pairtype collisions photons1 photons2 cuts1 cuts2 =
     concat (map (SameEventPairing_collision pairtype photons1 photons2 cuts1 cuts2) collisions)"

subsection \<open>Mixed-event pairing\<close>

text \<open>
  The fills of one pair of collisions that passed the gates of \<^verbatim>\<open>MixedEventPairing\<close>:
  the loops over the cuts and over all pairs of candidates of the two slices.
\<close>

definition mixed_fills ::
  "PairType \<Rightarrow> photon list \<Rightarrow> photon list \<Rightarrow> cut list \<Rightarrow> cut list \<Rightarrow>
   collision \<Rightarrow> collision \<Rightarrow> hfill list" where
  "mixed_fills pairtype photons1 photons2 cuts1 cuts2 collision1 collision2 =
     (let photons_coll1 = sliceBy photons1 (collisionId collision1);
          photons_coll2 = sliceBy photons2 (collisionId collision2)
      in concat (map (\<lambda>cut1. concat (map (\<lambda>cut2.
           concat (map (\<lambda>gg.
             if (pairtype = kPCMPCM \<or> pairtype = kPHOSPHOS \<or> pairtype = kEMCEMC)
                 \<and> GetName cut1 \<noteq> GetName cut2
             then []
             else fill_pair hs_q_mix pairtype cut1 cut2 gg)
             (CombinationsFullIndexPolicy photons_coll1 photons_coll2)))
           cuts2)) cuts1))"

text \<open>
  The loop of \<^verbatim>\<open>MixedEventPairing\<close> over the pairs of collisions, with its two local
  variables \<open>nev\<close> and \<open>index_coll1\<close>. A pair that passes the gates gives one entry of
  the result: the collision indices of the two events and the fills made from them.
\<close>

fun mix_loop ::
  "PairType \<Rightarrow> int \<Rightarrow> photon list \<Rightarrow> photon list \<Rightarrow> cut list \<Rightarrow> cut list \<Rightarrow>
   int \<Rightarrow> int \<Rightarrow> (collision \<times> collision) list \<Rightarrow> (int \<times> int \<times> hfill list) list" where
  "mix_loop pairtype ndepth photons1 photons2 cuts1 cuts2 nev index_coll1 [] = []"
| "mix_loop pairtype ndepth photons1 photons2 cuts1 cuts2 nev index_coll1
     ((collision1, collision2) # rest) =
     (let changed = (index_coll1 \<noteq> collisionId collision1);
          index_coll1' = (if changed then collisionId collision1 else index_coll1);
          nev' = (if changed then 0 else nev)
      in if nev' > ndepth then
           mix_loop pairtype ndepth photons1 photons2 cuts1 cuts2 nev' index_coll1' rest
         else if pairtype = kPCMPCM \<and> (ngpcm collision1 < 2 \<or> ngpcm collision2 < 2) then
           mix_loop pairtype ndepth photons1 photons2 cuts1 cuts2 nev' index_coll1' rest
         else if pairtype = kPHOSPHOS \<and> (ngphos collision1 < 2 \<or> ngphos collision2 < 2) then
           mix_loop pairtype ndepth photons1 photons2 cuts1 cuts2 nev' index_coll1' rest
         else if pairtype = kPCMPHOS \<and>
                 ((ngpcm collision1 < 1 \<or> ngphos collision1 < 1) \<or>
                  (ngpcm collision2 < 1 \<or> ngphos collision2 < 1)) then
           mix_loop pairtype ndepth photons1 photons2 cuts1 cuts2 nev' index_coll1' rest
         else
           (collisionId collision1, collisionId collision2,
            mixed_fills pairtype photons1 photons2 cuts1 cuts2 collision1 collision2)
           # mix_loop pairtype ndepth photons1 photons2 cuts1 cuts2 (nev' + 1) index_coll1' rest)"

definition MixedEventPairing ::
  "PairType \<Rightarrow> int \<Rightarrow> (collision \<Rightarrow> int) \<Rightarrow> collision list \<Rightarrow> photon list \<Rightarrow> photon list \<Rightarrow>
   cut list \<Rightarrow> cut list \<Rightarrow> (int \<times> int \<times> hfill list) list" where
  "MixedEventPairing pairtype ndepth colBinning collisions photons1 photons2 cuts1 cuts2 =
     mix_loop pairtype ndepth photons1 photons2 cuts1 cuts2 0 (- 999)
       (selfCombinations colBinning 1000 (- 1) collisions)"

subsection \<open>Filters and process functions\<close>

definition collisionFilter_common :: "collision \<Rightarrow> bool" where
  "collisionFilter_common c = (\<bar>posZ c\<bar> < 10 \<and> numContrib c > 0 \<and> sel8 c = True)"

definition collisionFilter_subsys :: "collision \<Rightarrow> bool" where
  "collisionFilter_subsys c = (ngpcm c \<ge> 2 \<or> ngphos c \<ge> 2 \<or> (ngpcm c \<ge> 1 \<and> ngphos c \<ge> 1))"

text \<open>
  \<^verbatim>\<open>MyFilteredCollisions\<close>: the framework hands a \<^verbatim>\<open>soa::Filtered\<close> table the rows that
  satisfy every \<^verbatim>\<open>Filter\<close> of the task.
\<close>

definition MyFilteredCollisions :: "collision list \<Rightarrow> collision list" where
  "MyFilteredCollisions collisions =
     filter (\<lambda>c. collisionFilter_common c \<and> collisionFilter_subsys c) collisions"

text \<open>
  The process functions: the fills of the same-event pass, then the entries of the
  mixed-event pass over the filtered collisions. \<open>ndepth\<close> and \<open>colBinning\<close> are the
  configurables of the task.
\<close>

definition processPCMPCM ::
  "int \<Rightarrow> (collision \<Rightarrow> int) \<Rightarrow> cut list \<Rightarrow> collision list \<Rightarrow> photon list \<Rightarrow>
   hfill list \<times> (int \<times> int \<times> hfill list) list" where
  "processPCMPCM ndepth colBinning fPCMCuts collisions v0photons =
     (SameEventPairing kPCMPCM collisions v0photons v0photons fPCMCuts fPCMCuts,
      MixedEventPairing kPCMPCM ndepth colBinning (MyFilteredCollisions collisions)
        v0photons v0photons fPCMCuts fPCMCuts)"

definition processPHOSPHOS ::
  "int \<Rightarrow> (collision \<Rightarrow> int) \<Rightarrow> cut list \<Rightarrow> collision list \<Rightarrow> photon list \<Rightarrow>
   hfill list \<times> (int \<times> int \<times> hfill list) list" where
  "processPHOSPHOS ndepth colBinning fPHOSCuts collisions phosclusters =
     (SameEventPairing kPHOSPHOS collisions phosclusters phosclusters fPHOSCuts fPHOSCuts,
      MixedEventPairing kPHOSPHOS ndepth colBinning (MyFilteredCollisions collisions)
        phosclusters phosclusters fPHOSCuts fPHOSCuts)"

definition processPCMPHOS ::
  "int \<Rightarrow> (collision \<Rightarrow> int) \<Rightarrow> cut list \<Rightarrow> cut list \<Rightarrow> collision list \<Rightarrow> photon list \<Rightarrow>
   photon list \<Rightarrow> hfill list \<times> (int \<times> int \<times> hfill list) list" where
  "processPCMPHOS ndepth colBinning fPCMCuts fPHOSCuts collisions v0photons phosclusters =
     (SameEventPairing kPCMPHOS collisions v0photons phosclusters fPCMCuts fPHOSCuts,
      MixedEventPairing kPCMPHOS ndepth colBinning (MyFilteredCollisions collisions)
        v0photons phosclusters fPCMCuts fPHOSCuts)"

subsection \<open>Observations and test data\<close>

text \<open>The values filled into \<^verbatim>\<open>hCollisionCounter\<close>, in the order of the fills.\<close>

fun counter_fills :: "hfill list \<Rightarrow> real list" where
  "counter_fills [] = []"
| "counter_fills (hCollisionCounter x # fs) = x # counter_fills fs"
| "counter_fills (f # fs) = counter_fills fs"

text \<open>Candidates: one of unit transverse momentum, one at rest, one opposite to the first.\<close>

definition g_unit :: photon where
  "g_unit = \<lparr>g_collisionId = 0, pt = 1, eta = 0, phi = 0\<rparr>"

definition g_zero :: photon where
  "g_zero = \<lparr>g_collisionId = 0, pt = 0, eta = 0, phi = 0\<rparr>"

definition g_back :: photon where
  "g_back = \<lparr>g_collisionId = 0, pt = 1, eta = 0, phi = pi\<rparr>"

text \<open>Cuts: \<open>named_cut n\<close> accepts every candidate, \<open>reject_cut n\<close> none.\<close>

definition named_cut :: "string \<Rightarrow> cut" where
  "named_cut n = \<lparr>GetName = n, IsSelected = (\<lambda>g. True)\<rparr>"

definition reject_cut :: "string \<Rightarrow> cut" where
  "reject_cut n = \<lparr>GetName = n, IsSelected = (\<lambda>g. False)\<rparr>"

text \<open>
  An event that passes every gate of the task: selected, one contributor, vertex at
  \<open>z\<close>, PHOS read out, two candidates of each subsystem.
\<close>

definition good_event :: "int \<Rightarrow> real \<Rightarrow> collision" where
  "good_event i z = \<lparr>collisionId = i, posZ = z, numContrib = 1, sel8 = True,
     isPHOSCPVreadout = True, ngpcm = 2, ngphos = 2, ngemc = 0, multNTracksPV = 5\<rparr>"

text \<open>A candidate of collision \<open>cid\<close> with transverse momentum \<open>p\<close>.\<close>

definition photon_at :: "int \<Rightarrow> real \<Rightarrow> photon" where
  "photon_at cid p = \<lparr>g_collisionId = cid, pt = p, eta = 0, phi = 0\<rparr>"

text \<open>A photon table with two candidates in collision 1 and two in collision 2.\<close>

definition photon_table :: "photon list" where
  "photon_table = [photon_at 1 1, photon_at 1 2, photon_at 2 3, photon_at 2 4]"

text \<open>An event like \<open>good_event i 0\<close>, but without PHOS/CPV readout.\<close>

definition unread_event :: "int \<Rightarrow> collision" where
  "unread_event i = (good_event i 0)\<lparr>isPHOSCPVreadout := False\<rparr>"

text \<open>Sixteen events that pass every gate, with the collision indices 0 to 15.\<close>

definition mixing_events :: "collision list" where
  "mixing_events =
     map (\<lambda>i. good_event i 0) [0, 1, 2, 3, 4, 5, 6, 7, 8, 9, 10, 11, 12, 13, 14, 15]"


section \<open>Properties\<close>

subsection \<open>Histogram classes\<close>

lemma concat_map_if_filter:
  "concat (map (\<lambda>y. if Q y then [] else [f y]) ys) = map f (filter (\<lambda>y. \<not> Q y) ys)"
  by (induction ys) simp_all

lemma add_pair_histograms_symmetric:
  assumes "pairname \<in> {''PCMPCM'', ''PHOSPHOS'', ''EMCEMC''}"
  shows "add_pair_histograms pairname cuts1 cuts2 =
     map (\<lambda>(c1, c2). GetName c1 @ ''_'' @ GetName c2)
       (filter (\<lambda>(c1, c2). GetName c1 = GetName c2) (List.product cuts1 cuts2))"
proof -
  have symm: "(pairname = ''PCMPCM'' \<or> pairname = ''PHOSPHOS'' \<or> pairname = ''EMCEMC'') = True"
    using assms by blast
  show ?thesis
    unfolding add_pair_histograms_def Let_def symm
    by (induction cuts1) (simp_all add: concat_map_if_filter filter_map comp_def)
qed

lemma add_pair_histograms_asymmetric:
  assumes "pairname \<notin> {''PCMPCM'', ''PHOSPHOS'', ''EMCEMC''}"
  shows "add_pair_histograms pairname cuts1 cuts2 =
     map (\<lambda>(c1, c2). GetName c1 @ ''_'' @ GetName c2) (List.product cuts1 cuts2)"
proof -
  have symm: "(pairname = ''PCMPCM'' \<or> pairname = ''PHOSPHOS'' \<or> pairname = ''EMCEMC'') = False"
    using assms by blast
  show ?thesis
    unfolding add_pair_histograms_def Let_def symm
    by (induction cuts1) (simp_all add: comp_def)
qed

lemma addhistograms_PCMPCM_default:
  "map GetName pcm = [''analysis'', ''qc'', ''nocut''] \<Longrightarrow>
   addhistograms (init_fPairNames True False False) pcm phos =
     [(''PCMPCM'', [''analysis_analysis'', ''qc_qc'', ''nocut_nocut''])]"
  by (auto simp: addhistograms_def init_fPairNames_def add_pair_histograms_def)

lemma addhistograms_PCMPHOS_example:
  "map GetName pcm = [''analysis''] \<Longrightarrow> map GetName phos = [''test02'', ''test03''] \<Longrightarrow>
   addhistograms (init_fPairNames False False True) pcm phos =
     [(''PCMPHOS'', [''analysis_test02'', ''analysis_test03''])]"
  by (auto simp: addhistograms_def init_fPairNames_def add_pair_histograms_def)

text \<open>
  Claim C5. The histogram classes created at start-up follow the matching rule of the
  pair type. For the pair names PCMPCM, PHOSPHOS and EMCEMC a class is added exactly for
  the pairs of cuts of equal name; for every other pair name a class is added for every
  pair of the product of the two cut lists, so their number is the product of the two
  lengths. With the PCM cuts analysis, qc, nocut and PCMPCM enabled, exactly the three
  classes analysis_analysis, qc_qc, nocut_nocut are created; with the PCM cut analysis,
  the PHOS cuts test02, test03 and PCMPHOS enabled, exactly the two classes
  analysis_test02, analysis_test03.
\<close>

theorem add_pair_histograms_matching_rule:
  "(pairname \<in> {''PCMPCM'', ''PHOSPHOS'', ''EMCEMC''} \<longrightarrow>
      add_pair_histograms pairname cuts1 cuts2 =
        map (\<lambda>(c1, c2). GetName c1 @ ''_'' @ GetName c2)
          (filter (\<lambda>(c1, c2). GetName c1 = GetName c2) (List.product cuts1 cuts2)))
   \<and> (pairname \<notin> {''PCMPCM'', ''PHOSPHOS'', ''EMCEMC''} \<longrightarrow>
      add_pair_histograms pairname cuts1 cuts2 =
        map (\<lambda>(c1, c2). GetName c1 @ ''_'' @ GetName c2) (List.product cuts1 cuts2)
      \<and> length (add_pair_histograms pairname cuts1 cuts2) = length cuts1 * length cuts2)
   \<and> (map GetName pcm3 = [''analysis'', ''qc'', ''nocut''] \<longrightarrow>
      addhistograms (init_fPairNames True False False) pcm3 phos =
        [(''PCMPCM'', [''analysis_analysis'', ''qc_qc'', ''nocut_nocut''])])
   \<and> (map GetName pcm1 = [''analysis''] \<and> map GetName phos2 = [''test02'', ''test03''] \<longrightarrow>
      addhistograms (init_fPairNames False False True) pcm1 phos2 =
        [(''PCMPHOS'', [''analysis_test02'', ''analysis_test03''])])"
proof (intro conjI impI)
  assume "pairname \<in> {''PCMPCM'', ''PHOSPHOS'', ''EMCEMC''}"
  then show "add_pair_histograms pairname cuts1 cuts2 =
      map (\<lambda>(c1, c2). GetName c1 @ ''_'' @ GetName c2)
        (filter (\<lambda>(c1, c2). GetName c1 = GetName c2) (List.product cuts1 cuts2))"
    by (rule add_pair_histograms_symmetric)
next
  assume a: "pairname \<notin> {''PCMPCM'', ''PHOSPHOS'', ''EMCEMC''}"
  then show "add_pair_histograms pairname cuts1 cuts2 =
      map (\<lambda>(c1, c2). GetName c1 @ ''_'' @ GetName c2) (List.product cuts1 cuts2)"
    by (rule add_pair_histograms_asymmetric)
  from a show "length (add_pair_histograms pairname cuts1 cuts2) = length cuts1 * length cuts2"
    by (simp add: add_pair_histograms_asymmetric)
next
  assume "map GetName pcm3 = [''analysis'', ''qc'', ''nocut'']"
  then show "addhistograms (init_fPairNames True False False) pcm3 phos =
      [(''PCMPCM'', [''analysis_analysis'', ''qc_qc'', ''nocut_nocut''])]"
    by (rule addhistograms_PCMPCM_default)
next
  assume "map GetName pcm1 = [''analysis''] \<and> map GetName phos2 = [''test02'', ''test03'']"
  then show "addhistograms (init_fPairNames False False True) pcm1 phos2 =
      [(''PCMPHOS'', [''analysis_test02'', ''analysis_test03''])]"
    by (simp add: addhistograms_PCMPHOS_example)
qed

theorem add_pair_histograms_matching_rule_witness:
  "add_pair_histograms ''PHOSPHOS'' [named_cut ''test02'', named_cut ''test03'']
       [named_cut ''test02'', named_cut ''test03''] = [''test02_test02'', ''test03_test03'']
   \<and> length (add_pair_histograms ''PCMPHOS'' [named_cut ''analysis'']
       [named_cut ''test02'', named_cut ''test03'']) = 2
   \<and> addhistograms (init_fPairNames True False False)
       [named_cut ''analysis'', named_cut ''qc'', named_cut ''nocut'']
       [named_cut ''test02'', named_cut ''test03''] =
         [(''PCMPCM'', [''analysis_analysis'', ''qc_qc'', ''nocut_nocut''])]
   \<and> addhistograms (init_fPairNames False False True)
       [named_cut ''analysis''] [named_cut ''test02'', named_cut ''test03''] =
         [(''PCMPHOS'', [''analysis_test02'', ''analysis_test03''])]"
  using add_pair_histograms_matching_rule [of "''PHOSPHOS''"
      "[named_cut ''test02'', named_cut ''test03'']"
      "[named_cut ''test02'', named_cut ''test03'']"
      "[named_cut ''analysis'', named_cut ''qc'', named_cut ''nocut'']"
      "[named_cut ''test02'', named_cut ''test03'']"
      "[named_cut ''analysis'']" "[named_cut ''test02'', named_cut ''test03'']"]
    add_pair_histograms_matching_rule [of "''PCMPHOS''" "[named_cut ''analysis'']"
      "[named_cut ''test02'', named_cut ''test03'']"
      "[named_cut ''analysis'', named_cut ''qc'', named_cut ''nocut'']"
      "[named_cut ''test02'', named_cut ''test03'']"
      "[named_cut ''analysis'']" "[named_cut ''test02'', named_cut ''test03'']"]
  by (simp add: named_cut_def)

subsection \<open>Pair selection\<close>

text \<open>
  Claim C6, as amended. For the pair types PCM-PCM, PHOS-PHOS and PCM-PHOS
  \<open>IsSelectedPair\<close> returns true exactly when the first candidate passes \<open>cut1\<close> and the
  second passes \<open>cut2\<close>; for EMC-EMC, PCM-EMC and PHOS-EMC it returns true whatever the
  cuts say. The function has no state to change: its result is its only output.
\<close>

theorem IsSelectedPair_both_pass:
  "(pairtype \<in> {kPCMPCM, kPHOSPHOS, kPCMPHOS} \<longrightarrow>
      IsSelectedPair pairtype g1 g2 cut1 cut2 = (IsSelected cut1 g1 \<and> IsSelected cut2 g2))
   \<and> (pairtype \<in> {kEMCEMC, kPCMEMC, kPHOSEMC} \<longrightarrow> IsSelectedPair pairtype g1 g2 cut1 cut2)"
  by (cases pairtype) (simp_all add: IsSelectedPair_def)

theorem IsSelectedPair_both_pass_witness:
  "IsSelectedPair kPCMPHOS g_unit g_back (named_cut ''analysis'') (named_cut ''test02'')
   \<and> \<not> IsSelectedPair kPCMPHOS g_unit g_back (named_cut ''analysis'') (reject_cut ''test02'')
   \<and> \<not> IsSelectedPair kPCMPCM g_unit g_back (reject_cut ''qc'') (named_cut ''qc'')
   \<and> IsSelectedPair kPHOSEMC g_unit g_back (reject_cut ''test02'') (reject_cut ''test03'')"
  using IsSelectedPair_both_pass [of kPCMPHOS g_unit g_back "named_cut ''analysis''" "named_cut ''test02''"]
    IsSelectedPair_both_pass [of kPCMPHOS g_unit g_back "named_cut ''analysis''" "reject_cut ''test02''"]
    IsSelectedPair_both_pass [of kPCMPCM g_unit g_back "reject_cut ''qc''" "named_cut ''qc''"]
    IsSelectedPair_both_pass [of kPHOSEMC g_unit g_back "reject_cut ''test02''" "reject_cut ''test03''"]
  by (simp add: named_cut_def reject_cut_def)

text \<open>
  Claim C6 as stated fails: for the pair type EMC-EMC the pair is selected although
  neither candidate passes its cut.
\<close>

theorem IsSelectedPair_EMCEMC_counterexample:
  "IsSelectedPair kEMCEMC g_unit g_back (reject_cut ''nocut'') (reject_cut ''nocut'')
   \<and> \<not> IsSelected (reject_cut ''nocut'') g_unit \<and> \<not> IsSelected (reject_cut ''nocut'') g_back"
  by (simp add: IsSelectedPair_def reject_cut_def)

subsection \<open>Kinematic transform\<close>

lemma lv_plus_commute: "lv_plus w v = lv_plus v w"
  by (simp add: lv_plus_def)

lemma P_k12_of_commute: "P (k12_of g2 g1) = P (k12_of g1 g2)"
  unfolding k12_of_def Let_def
    lv_plus_commute [of "PtEtaPhiMVector (pt g2) (eta g2) (phi g2) 0"] ..

lemma M_lv_minus_commute: "M (lv_minus w v) = M (lv_minus v w)"
proof -
  have "M2 (lv_minus w v) = M2 (lv_minus v w)"
    by (simp add: M2_def lv_minus_def power2_commute)
  then show ?thesis by (simp add: M_def)
qed

lemma KinematicTransform_None_iff:
  "(KinematicTransform g1 g2 = None) = (P (k12_of g1 g2) = 0)"
  by (simp add: KinematicTransform_def k12_of_def xyz_div_def Let_def)


lemma P_k12_of_zero_zero: "P (k12_of g_zero g_zero) = 0"
  by (simp add: k12_of_def g_zero_def P_def lv_scale_def lv_plus_def PtEtaPhiMVector_def)

lemma KinematicTransform_zero_zero: "KinematicTransform g_zero g_zero = None"
  by (simp add: KinematicTransform_None_iff P_k12_of_zero_zero)









text \<open>
  Claim C7, as amended. For two candidates with the same (pt, eta, phi) and pt > 0, the
  kinematic transform is defined and gives qinv = 0, qlong = qout = qside = 0 and kt
  equal to the common pt.
\<close>

theorem KinematicTransform_identical:
  assumes "pt g1 > 0" "pt g2 = pt g1" "eta g2 = eta g1" "phi g2 = phi g1"
  shows "KinematicTransform g1 g2 =
    Some \<lparr>qinv = 0, qlong = 0, qout = 0, qside = 0, kt = pt g1\<rparr>"
proof -
  let ?v = "PtEtaPhiMVector (pt g1) (eta g1) (phi g1) 0"
  have q: "lv_minus ?v ?v = \<lparr>Px = 0, Py = 0, Pz = 0, E = 0\<rparr>"
    by (simp add: lv_minus_def)
  have k: "lv_scale 0.5 (lv_plus ?v ?v) = ?v"
    by (simp add: lv_scale_def lv_plus_def PtEtaPhiMVector_def)
  have "(pt g1 * cos (phi g1))\<^sup>2 + (pt g1 * sin (phi g1))\<^sup>2
      = (pt g1)\<^sup>2 * ((cos (phi g1))\<^sup>2 + (sin (phi g1))\<^sup>2)"
    unfolding power_mult_distrib distrib_left ..
  then have sc: "(pt g1 * cos (phi g1))\<^sup>2 + (pt g1 * sin (phi g1))\<^sup>2 = (pt g1)\<^sup>2"
    by simp
  have Ptv: "Pt ?v = pt g1"
    using assms(1) by (simp add: Pt_def PtEtaPhiMVector_def sc)
  have "(pt g1)\<^sup>2 + (pt g1 * sinh (eta g1))\<^sup>2 = (pt g1)\<^sup>2 * ((sinh (eta g1))\<^sup>2 + 1)"
    unfolding power_mult_distrib distrib_left by simp
  also have "\<dots> = (pt g1 * cosh (eta g1))\<^sup>2"
    unfolding power_mult_distrib cosh_square_eq ..
  finally have "(pt g1 * cos (phi g1))\<^sup>2 + (pt g1 * sin (phi g1))\<^sup>2
      + (pt g1 * sinh (eta g1))\<^sup>2 = (pt g1 * cosh (eta g1))\<^sup>2"
    unfolding sc .
  then have Pv: "P ?v = pt g1 * cosh (eta g1)"
    using assms(1) by (simp add: P_def PtEtaPhiMVector_def)
  have nz: "P ?v \<noteq> 0"
    using assms(1) Pv by simp
  have M0: "M \<lparr>Px = 0, Py = 0, Pz = 0, E = 0\<rparr> = 0"
    by (simp add: M_def M2_def)
  show ?thesis
    unfolding KinematicTransform_def Let_def assms(2-4) q k
    using nz by (simp add: M0 Ptv xyz_div_def Dot_def Vect_def)
qed

theorem KinematicTransform_identical_witness:
  "pt g_unit > 0 \<and>
   KinematicTransform g_unit (g_unit\<lparr>g_collisionId := 7\<rparr>) =
     Some \<lparr>qinv = 0, qlong = 0, qout = 0, qside = 0, kt = 1\<rparr>"
  using KinematicTransform_identical [of g_unit "g_unit\<lparr>g_collisionId := 7\<rparr>"]
  by (simp add: g_unit_def)

text \<open>
  Claim C7 as stated fails for two identical candidates of pt = 0: the half-sum has
  magnitude zero, the division for the out axis has a zero divisor, and the transform
  gives no values, so not the values the claim names.
\<close>

theorem KinematicTransform_identical_counterexample:
  "pt g_zero = pt g_zero \<and> eta g_zero = eta g_zero \<and> phi g_zero = phi g_zero
   \<and> KinematicTransform g_zero g_zero = None
   \<and> KinematicTransform g_zero g_zero \<noteq>
       Some \<lparr>qinv = 0, qlong = 0, qout = 0, qside = 0, kt = pt g_zero\<rparr>"
  by (simp add: KinematicTransform_zero_zero)

text \<open>
  Claim C8. Swapping the two candidates changes the output of the kinematic transform
  by signs only, and the code fixes which: qlong, qout and qside change sign, qinv and
  kt stay as they are (qinv is the negated signed mass of the difference, which is the
  same for \<open>v1 - v2\<close> and \<open>v2 - v1\<close>). The swapped transform is defined exactly when the
  original one is.
\<close>

theorem KinematicTransform_swap:
  "KinematicTransform g2 g1 =
     map_option (\<lambda>r. r\<lparr>qlong := - qlong r, qout := - qout r, qside := - qside r\<rparr>)
       (KinematicTransform g1 g2)"
proof (cases "P (k12_of g1 g2) = 0")
  case True
  then have "KinematicTransform g1 g2 = None" "KinematicTransform g2 g1 = None"
    by (simp_all add: KinematicTransform_None_iff P_k12_of_commute)
  then show ?thesis by simp
next
  case False
  let ?v1 = "PtEtaPhiMVector (pt g1) (eta g1) (phi g1) 0"
  let ?v2 = "PtEtaPhiMVector (pt g2) (eta g2) (phi g2) 0"
  let ?k = "lv_scale 0.5 (lv_plus ?v1 ?v2)"
  have k: "lv_plus ?v2 ?v1 = lv_plus ?v1 ?v2"
    by (rule lv_plus_commute)
  have nz: "P ?k \<noteq> 0"
    using False by (simp add: k12_of_def)
  have q3: "Vect (lv_minus ?v2 ?v1) =
      \<lparr>X = - X (Vect (lv_minus ?v1 ?v2)), Y = - Y (Vect (lv_minus ?v1 ?v2)),
       Z = - Z (Vect (lv_minus ?v1 ?v2))\<rparr>"
    by (simp add: Vect_def lv_minus_def)
  have dotneg: "\<And>a b. Dot \<lparr>X = - X a, Y = - Y a, Z = - Z a\<rparr> b = - Dot a b"
    by (simp add: Dot_def)
  obtain u where u: "xyz_div (Vect ?k) (P ?k) = Some u"
    using nz by (simp add: xyz_div_def)
  show ?thesis
    unfolding KinematicTransform_def Let_def k M_lv_minus_commute [of ?v2 ?v1] q3 dotneg u
    by simp
qed

subsection \<open>Event gates of the same-event pairing\<close>

lemma counter_fills_append: "counter_fills (fs @ gs) = counter_fills fs @ counter_fills gs"
  by (induction fs rule: counter_fills.induct) simp_all

lemma counter_fills_concat_Nil:
  "(\<And>x. x \<in> set xs \<Longrightarrow> counter_fills (f x) = []) \<Longrightarrow> counter_fills (concat (map f xs)) = []"
  by (induction xs) (simp_all add: counter_fills_append)

lemma counter_fills_fill_pair_same: "counter_fills (fill_pair hs_q_same pairtype cut1 cut2 gg) = []"
  by (cases gg) (simp add: fill_pair_def)

lemma counter_fills_pairs:
  "counter_fills
     (let photons1_coll = sliceBy photons1 cid; photons2_coll = sliceBy photons2 cid
      in if symm then
           concat (map (\<lambda>cut.
             concat (map (fill_pair hs_q_same pairtype cut cut)
               (CombinationsStrictlyUpperIndexPolicy photons1_coll photons2_coll))) cuts1)
         else
           concat (map (\<lambda>cut1. concat (map (\<lambda>cut2.
             concat (map (fill_pair hs_q_same pairtype cut1 cut2)
               (CombinationsFullIndexPolicy photons1_coll photons2_coll))) cuts2)) cuts1)) = []"
  by (simp add: Let_def counter_fills_concat_Nil counter_fills_fill_pair_same)

lemma counter_fills_collision:
  "counter_fills (SameEventPairing_collision pairtype photons1 photons2 cuts1 cuts2 c) =
     (if (pairtype = kPHOSPHOS \<or> pairtype = kPCMPHOS) \<and> \<not> isPHOSCPVreadout c then []
      else if \<not> sel8 c then [1]
      else if numContrib c = 0 then [1, 2]
      else if \<bar>posZ c\<bar> > 10 then [1, 2, 3]
      else [1, 2, 3, 4])"
proof -
  have nc: "(real (numContrib c) < 0.5) = (numContrib c = 0)"
    by (cases "numContrib c") simp_all
  show ?thesis
    unfolding SameEventPairing_collision_def nc
    by (simp add: counter_fills_append counter_fills_pairs)
qed

lemma counter_fills_SameEventPairing:
  "counter_fills (SameEventPairing pairtype collisions photons1 photons2 cuts1 cuts2) =
     concat (map (\<lambda>c. counter_fills
       (SameEventPairing_collision pairtype photons1 photons2 cuts1 cuts2 c)) collisions)"
  unfolding SameEventPairing_def
  by (induction collisions) (simp_all add: counter_fills_append)

lemma count_seen:
  "pairtype \<noteq> kPHOSPHOS \<Longrightarrow> pairtype \<noteq> kPCMPHOS \<Longrightarrow>
   count_list (counter_fills (SameEventPairing pairtype collisions photons1 photons2 cuts1 cuts2)) 1
     = length collisions"
  unfolding counter_fills_SameEventPairing
  by (induction collisions) (simp_all add: counter_fills_collision)

text \<open>
  Claim C3, as amended. In same-event pairing, for the pair types PHOS-PHOS and PCM-PHOS
  an event without PHOS/CPV readout is skipped before anything is counted. Every other
  event is first counted as seen (stage 1), and then the gates are applied in the fixed
  order global selection flag, contributor count > 0, vertex z, each passed stage being
  counted (stages 2, 3, 4): an event with |z| > 10 stops after stage 3, one with
  |z| < 10 reaches stage 4. For the pair types without the readout gate the number of
  stage-1 counts is the number of events delivered.
\<close>

theorem SameEventPairing_stage_counters:
  "(\<bar>posZ c\<bar> \<noteq> 10 \<longrightarrow>
     counter_fills (SameEventPairing_collision pairtype photons1 photons2 cuts1 cuts2 c) =
      (if (pairtype = kPHOSPHOS \<or> pairtype = kPCMPHOS) \<and> \<not> isPHOSCPVreadout c then []
       else if \<not> sel8 c then [1]
       else if numContrib c = 0 then [1, 2]
       else if \<bar>posZ c\<bar> < 10 then [1, 2, 3, 4]
       else [1, 2, 3]))
   \<and> (pairtype \<noteq> kPHOSPHOS \<and> pairtype \<noteq> kPCMPHOS \<longrightarrow>
     count_list (counter_fills
       (SameEventPairing pairtype collisions photons1 photons2 cuts1 cuts2)) 1 = length collisions)"
proof (intro conjI impI)
  assume z: "\<bar>posZ c\<bar> \<noteq> 10"
  then have "(\<bar>posZ c\<bar> < 10) = (\<not> \<bar>posZ c\<bar> > 10)"
    by linarith
  then show "counter_fills (SameEventPairing_collision pairtype photons1 photons2 cuts1 cuts2 c) =
      (if (pairtype = kPHOSPHOS \<or> pairtype = kPCMPHOS) \<and> \<not> isPHOSCPVreadout c then []
       else if \<not> sel8 c then [1]
       else if numContrib c = 0 then [1, 2]
       else if \<bar>posZ c\<bar> < 10 then [1, 2, 3, 4]
       else [1, 2, 3])"
    unfolding counter_fills_collision by simp
next
  assume "pairtype \<noteq> kPHOSPHOS \<and> pairtype \<noteq> kPCMPHOS"
  then show "count_list (counter_fills
       (SameEventPairing pairtype collisions photons1 photons2 cuts1 cuts2)) 1 = length collisions"
    by (simp add: count_seen)
qed

theorem SameEventPairing_stage_counters_witness:
  "counter_fills (SameEventPairing_collision kPHOSPHOS [] [] [] [] (good_event 1 0)) = [1, 2, 3, 4]
   \<and> counter_fills (SameEventPairing_collision kPCMPCM [] [] [] [] (good_event 1 10.5)) = [1, 2, 3]
   \<and> counter_fills (SameEventPairing_collision kPCMPCM [] [] [] []
        ((good_event 1 0)\<lparr>numContrib := 0\<rparr>)) = [1, 2]
   \<and> counter_fills (SameEventPairing_collision kPCMPCM [] [] [] []
        ((good_event 1 0)\<lparr>sel8 := False\<rparr>)) = [1]
   \<and> counter_fills (SameEventPairing_collision kPCMPHOS [] [] [] []
        ((good_event 1 0)\<lparr>isPHOSCPVreadout := False\<rparr>)) = []
   \<and> count_list (counter_fills (SameEventPairing kPCMPCM
        [good_event 1 0, (good_event 2 0)\<lparr>sel8 := False\<rparr>] [] [] [] [])) 1 = 2"
  using SameEventPairing_stage_counters [of "good_event 1 0" kPHOSPHOS "[]" "[]" "[]" "[]" "[]"]
    SameEventPairing_stage_counters [of "good_event 1 10.5" kPCMPCM "[]" "[]" "[]" "[]"
      "[good_event 1 0, (good_event 2 0)\<lparr>sel8 := False\<rparr>]"]
    SameEventPairing_stage_counters [of "(good_event 1 0)\<lparr>numContrib := 0\<rparr>" kPCMPCM
      "[]" "[]" "[]" "[]" "[]"]
    SameEventPairing_stage_counters [of "(good_event 1 0)\<lparr>sel8 := False\<rparr>" kPCMPCM
      "[]" "[]" "[]" "[]" "[]"]
    SameEventPairing_stage_counters [of "(good_event 1 0)\<lparr>isPHOSCPVreadout := False\<rparr>" kPCMPHOS
      "[]" "[]" "[]" "[]" "[]"]
  by (simp add: good_event_def)

text \<open>
  Claim C3 as stated fails: with the pair type PHOS-PHOS an event without PHOS/CPV
  readout is delivered and never counted as seen; it leaves no fill at all.
\<close>

theorem SameEventPairing_seen_counterexample:
  "counter_fills (SameEventPairing kPHOSPHOS
      [(good_event 1 0)\<lparr>isPHOSCPVreadout := False\<rparr>] [] [] [] []) = []
   \<and> SameEventPairing kPHOSPHOS
      [(good_event 1 0)\<lparr>isPHOSCPVreadout := False\<rparr>] [] [] [] [] = []"
  by (simp add: SameEventPairing_def SameEventPairing_collision_def good_event_def)

text \<open>
  Claim C10. An event with |posZ| = 10 that passes the other gates is accepted by the
  same-event pairing (it reaches stage 4) and is not in the filtered collisions that
  feed the event mixing. Apart from the PHOS readout gate, the same-event gates and the
  common filter of the mixing disagree on an event exactly when it is selected, has a
  contributor and has |posZ| = 10.
\<close>

theorem vertex_gate_boundary:
  "(\<bar>posZ c\<bar> = 10 \<and> sel8 c \<and> numContrib c > 0 \<and>
      ((pairtype = kPHOSPHOS \<or> pairtype = kPCMPHOS) \<longrightarrow> isPHOSCPVreadout c) \<longrightarrow>
     4 \<in> set (counter_fills (SameEventPairing_collision pairtype photons1 photons2 cuts1 cuts2 c))
     \<and> \<not> collisionFilter_common c \<and> c \<notin> set (MyFilteredCollisions collisions))
   \<and> (((pairtype = kPHOSPHOS \<or> pairtype = kPCMPHOS) \<longrightarrow> isPHOSCPVreadout c) \<longrightarrow>
     ((4 \<in> set (counter_fills
          (SameEventPairing_collision pairtype photons1 photons2 cuts1 cuts2 c)))
        \<noteq> collisionFilter_common c) = (sel8 c \<and> numContrib c > 0 \<and> \<bar>posZ c\<bar> = 10))"
  unfolding counter_fills_collision collisionFilter_common_def MyFilteredCollisions_def
  by auto

theorem vertex_gate_boundary_witness:
  "4 \<in> set (counter_fills (SameEventPairing_collision kPCMPCM [] [] [] [] (good_event 1 10)))
   \<and> \<not> collisionFilter_common (good_event 1 10)
   \<and> MyFilteredCollisions [good_event 1 10, good_event 2 (- 10), good_event 3 9.9] =
       [good_event 3 9.9]
   \<and> 4 \<in> set (counter_fills
       (SameEventPairing_collision kPHOSPHOS [] [] [] [] (good_event 2 (- 10))))"
  using vertex_gate_boundary [of "good_event 1 10" kPCMPCM "[]" "[]" "[]" "[]" "[]"]
    vertex_gate_boundary [of "good_event 2 (- 10)" kPHOSPHOS "[]" "[]" "[]" "[]" "[]"]
  by (simp add: good_event_def MyFilteredCollisions_def collisionFilter_common_def
      collisionFilter_subsys_def)

subsection \<open>Enumeration of candidate pairs and of event pairs\<close>





















lemma good_event_sel:
  "collisionId (good_event i z) = i" "ngpcm (good_event i z) = 2" "ngphos (good_event i z) = 2"
  by (simp_all add: good_event_def)

lemma selfCombinations_one_bin:
  "collisions \<noteq> [] \<Longrightarrow> length collisions \<le> 1001 \<Longrightarrow>
   selfCombinations (\<lambda>c. 0) 1000 (- 1) collisions = block_upper 1000 collisions"
proof -
  assume ne: "collisions \<noteq> []"
  have "remdups (map (\<lambda>c. 0::int) collisions) = (if collisions = [] then [] else [0])"
    by (induction collisions) (auto simp: image_iff)
  with ne show ?thesis
    by (simp add: selfCombinations_def)
qed

lemma sliceBy_table_1: "sliceBy photon_table 1 = [(0, photon_at 1 1), (1, photon_at 1 2)]"
  by (simp add: sliceBy_def photon_table_def photon_at_def)

lemma sliceBy_table_2: "sliceBy photon_table 2 = [(2, photon_at 2 3), (3, photon_at 2 4)]"
  by (simp add: sliceBy_def photon_table_def photon_at_def)







subsection \<open>Mixing depth\<close>

text \<open>
  For one anchor event \<open>c1\<close> followed by partners that all pass the candidate-count
  gates, the loop processes the first \<open>ndepth + 1 - nev\<close> partners: from \<open>nev = 0\<close> that is
  \<open>ndepth + 1\<close> of them, since a pair is skipped only when \<open>nev > ndepth\<close>.
\<close>

lemma mix_loop_one_anchor:
  assumes "\<And>c2. c2 \<in> set partners \<Longrightarrow>
      \<not> (pairtype = kPCMPCM \<and> (ngpcm c1 < 2 \<or> ngpcm c2 < 2)) \<and>
      \<not> (pairtype = kPHOSPHOS \<and> (ngphos c1 < 2 \<or> ngphos c2 < 2)) \<and>
      \<not> (pairtype = kPCMPHOS \<and>
          ((ngpcm c1 < 1 \<or> ngphos c1 < 1) \<or> (ngpcm c2 < 1 \<or> ngphos c2 < 1)))"
    and "0 \<le> nev"
  shows "map (\<lambda>e. fst (snd e))
      (mix_loop pairtype ndepth photons1 photons2 cuts1 cuts2 nev (collisionId c1)
         (map (Pair c1) partners))
    = map collisionId (take (nat (ndepth + 1 - nev)) partners)"
  using assms
proof (induction partners arbitrary: nev)
  case Nil
  then show ?case by simp
next
  case (Cons c2 partners)
  have g: "\<not> (pairtype = kPCMPCM \<and> (ngpcm c1 < 2 \<or> ngpcm c2 < 2))"
    "\<not> (pairtype = kPHOSPHOS \<and> (ngphos c1 < 2 \<or> ngphos c2 < 2))"
    "\<not> (pairtype = kPCMPHOS \<and>
          ((ngpcm c1 < 1 \<or> ngphos c1 < 1) \<or> (ngpcm c2 < 1 \<or> ngphos c2 < 1)))"
    using Cons.prems(1) [of c2] by auto
  have rest: "\<And>c. c \<in> set partners \<Longrightarrow>
      \<not> (pairtype = kPCMPCM \<and> (ngpcm c1 < 2 \<or> ngpcm c < 2)) \<and>
      \<not> (pairtype = kPHOSPHOS \<and> (ngphos c1 < 2 \<or> ngphos c < 2)) \<and>
      \<not> (pairtype = kPCMPHOS \<and>
          ((ngpcm c1 < 1 \<or> ngphos c1 < 1) \<or> (ngpcm c < 1 \<or> ngphos c < 1)))"
    by (rule Cons.prems(1)) simp
  show ?case
  proof (cases "nev > ndepth")
    case True
    then have z: "nat (ndepth + 1 - nev) = 0" by simp
    have "mix_loop pairtype ndepth photons1 photons2 cuts1 cuts2 nev (collisionId c1)
         (map (Pair c1) (c2 # partners)) =
       mix_loop pairtype ndepth photons1 photons2 cuts1 cuts2 nev (collisionId c1)
         (map (Pair c1) partners)"
      using True by (simp add: Let_def)
    then show ?thesis
      using Cons.IH [OF rest Cons.prems(2)] z by simp
  next
    case False
    then have s: "nat (ndepth + 1 - nev) = Suc (nat (ndepth + 1 - (nev + 1)))"
      by simp
    have "mix_loop pairtype ndepth photons1 photons2 cuts1 cuts2 nev (collisionId c1)
         (map (Pair c1) (c2 # partners)) =
       (collisionId c1, collisionId c2,
        mixed_fills pairtype photons1 photons2 cuts1 cuts2 c1 c2) #
       mix_loop pairtype ndepth photons1 photons2 cuts1 cuts2 (nev + 1) (collisionId c1)
         (map (Pair c1) partners)"
      using False g by (auto simp add: Let_def)
    moreover have "0 \<le> nev + 1" using Cons.prems(2) by simp
    ultimately show ?thesis
      using Cons.IH [OF rest, of "nev + 1"] s by simp
  qed
qed

text \<open>
  Claim C1 says that with the depth limit 10 an anchor event is paired with at most 10
  partner events. The code at sixteen events of one mixing bin: the anchor with
  collision index 0 has fifteen partners, and eleven of them are processed, those with
  the indices 1 to 11.
\<close>

theorem MixedEventPairing_depth_example:
  "map (\<lambda>e. (fst e, fst (snd e))) (filter (\<lambda>e. fst e = 0)
     (MixedEventPairing kPCMPCM 10 (\<lambda>c. 0) mixing_events photons1 photons2 cuts1 cuts2))
   = [(0, 1), (0, 2), (0, 3), (0, 4), (0, 5), (0, 6), (0, 7), (0, 8), (0, 9), (0, 10), (0, 11)]"
  unfolding MixedEventPairing_def
  by (simp add: selfCombinations_one_bin mixing_events_def good_event_sel Let_def)


subsection \<open>The readout gate in the two passes\<close>

text \<open>
  Claim C2 says that for a cross-subsystem pair type the event mixer checks the readout
  flag of the two events before it pairs their candidates. The code for PCM-PHOS at two
  events without PHOS/CPV readout: the same-event pass skips both events, the
  mixed-event pass pairs the candidates of the first with those of the second and fills
  four mixed pairs.
\<close>

theorem processPCMPHOS_readout_example:
  "processPCMPHOS 10 (\<lambda>c. 0) [named_cut ''analysis''] [named_cut ''test02'']
     [unread_event 1, unread_event 2] photon_table photon_table =
   ([], [(1, 2, [hs_q_mix ''analysis_test02'' 0 2 (KinematicTransform (photon_at 1 1) (photon_at 2 3)),
              hs_q_mix ''analysis_test02'' 0 3 (KinematicTransform (photon_at 1 1) (photon_at 2 4)),
              hs_q_mix ''analysis_test02'' 1 2 (KinematicTransform (photon_at 1 2) (photon_at 2 3)),
              hs_q_mix ''analysis_test02'' 1 3 (KinematicTransform (photon_at 1 2) (photon_at 2 4))])])"
proof -
  have c: "collisionId (unread_event 1) = 1" "collisionId (unread_event 2) = 2"
    "ngpcm (unread_event 1) = 2" "ngpcm (unread_event 2) = 2"
    "ngphos (unread_event 1) = 2" "ngphos (unread_event 2) = 2"
    "\<not> isPHOSCPVreadout (unread_event 1)" "\<not> isPHOSCPVreadout (unread_event 2)"
    by (simp_all add: unread_event_def good_event_def)
  have f: "MyFilteredCollisions [unread_event 1, unread_event 2] = [unread_event 1, unread_event 2]"
    by (simp add: MyFilteredCollisions_def collisionFilter_common_def collisionFilter_subsys_def
        unread_event_def good_event_def)
  have s: "SameEventPairing kPCMPHOS [unread_event 1, unread_event 2] photon_table photon_table
      [named_cut ''analysis''] [named_cut ''test02''] = []"
    by (simp add: SameEventPairing_def SameEventPairing_collision_def c)
  have sc: "selfCombinations (\<lambda>c. 0) 1000 (- 1) [unread_event 1, unread_event 2] =
      [(unread_event 1, unread_event 2)]"
    by (simp add: selfCombinations_def)
  have m: "MixedEventPairing kPCMPHOS 10 (\<lambda>c. 0) [unread_event 1, unread_event 2]
      photon_table photon_table [named_cut ''analysis''] [named_cut ''test02''] =
    [(1, 2, [hs_q_mix ''analysis_test02'' 0 2 (KinematicTransform (photon_at 1 1) (photon_at 2 3)),
              hs_q_mix ''analysis_test02'' 0 3 (KinematicTransform (photon_at 1 1) (photon_at 2 4)),
              hs_q_mix ''analysis_test02'' 1 2 (KinematicTransform (photon_at 1 2) (photon_at 2 3)),
              hs_q_mix ''analysis_test02'' 1 3 (KinematicTransform (photon_at 1 2) (photon_at 2 4))])]"
    unfolding MixedEventPairing_def sc mix_loop.simps Let_def c mixed_fills_def
      sliceBy_table_1 sliceBy_table_2
    by (simp add: fill_pair_def IsSelectedPair_def named_cut_def CombinationsFullIndexPolicy_def)
  show ?thesis
    unfolding processPCMPHOS_def f s m ..
qed

subsection \<open>Where the kinematic transform has no value\<close>





end
